theory Spec2Isabelle
  imports Complex_Main "HOL-Library.Multiset"
begin

section \<open>Data model\<close>

text \<open>
  Modelled from the spec: the declarations of \<^verbatim>\<open>types.ts\<close> (Expense, ExpenseCategory,
  ExpenseStatus, User, UserRole), which are not among the sources. The enumerations and the
  record types below follow the data model of the spec (section 3) and the
  fields the providers and pages read and write (\<^verbatim>\<open>AddExpense.tsx\<close>, handleSubmit;
  \<^verbatim>\<open>AuthContext.tsx\<close>, signup). Field \<^verbatim>\<open>id\<close> is called \<open>eid\<close> on an expense and
  \<open>uid\<close> on a user, since \<open>id\<close> is HOL's identity function; the fields of the pending
  sub-record carry the prefix \<open>pending\<close>. Amounts are JavaScript numbers that the
  modelled code only copies; they are reals here.
\<close>

datatype ExpenseCategory =
  RESTAURANT | HOTEL | TRANSPORT | SUPPLIES | MILEAGE | FUEL | PARKING | MISC

datatype ExpenseStatus = SUBMITTED | APPROVED | REJECTED

datatype UserRole = SALES | MANAGER | ADMIN

record Expense =
  eid :: string
  userId :: string
  userName :: string
  merchant :: string
  date :: string
  subtotal :: real
  tax :: real
  total :: real
  category :: ExpenseCategory
  imageUrl :: string
  status :: ExpenseStatus
  "notes" :: string
  createdAt :: string

text \<open>
  \<^verbatim>\<open>Partial<Expense>\<close>: every key may be absent (\<open>None\<close>) or carry a value.
\<close>

record ExpensePatch =
  p_eid :: "string option"
  p_userId :: "string option"
  p_userName :: "string option"
  p_merchant :: "string option"
  p_date :: "string option"
  p_subtotal :: "real option"
  p_tax :: "real option"
  p_total :: "real option"
  p_category :: "ExpenseCategory option"
  p_imageUrl :: "string option"
  p_status :: "ExpenseStatus option"
  p_notes :: "string option"
  p_createdAt :: "string option"

definition noPatch :: ExpensePatch where
  "noPatch =
     \<lparr>p_eid = None, p_userId = None, p_userName = None, p_merchant = None, p_date = None,
      p_subtotal = None, p_tax = None, p_total = None, p_category = None, p_imageUrl = None,
      p_status = None, p_notes = None, p_createdAt = None\<rparr>"

text \<open>The object spread \<^verbatim>\<open>{ ...exp, ...updatedExpense }\<close>: a key of the patch wins (\<open>e\<close> stands for the source's \<^verbatim>\<open>exp\<close>, which is the exponential function in HOL).\<close>

definition orElse :: "'a option \<Rightarrow> 'a \<Rightarrow> 'a" where
  "orElse p v = (case p of None \<Rightarrow> v | Some w \<Rightarrow> w)"

definition spread :: "Expense \<Rightarrow> ExpensePatch \<Rightarrow> Expense" where
  "spread e p =
     \<lparr>eid = orElse (p_eid p) (eid e),
      userId = orElse (p_userId p) (userId e),
      userName = orElse (p_userName p) (userName e),
      merchant = orElse (p_merchant p) (merchant e),
      date = orElse (p_date p) (date e),
      subtotal = orElse (p_subtotal p) (subtotal e),
      tax = orElse (p_tax p) (tax e),
      total = orElse (p_total p) (total e),
      category = orElse (p_category p) (category e),
      imageUrl = orElse (p_imageUrl p) (imageUrl e),
      status = orElse (p_status p) (status e),
      notes = orElse (p_notes p) (notes e),
      createdAt = orElse (p_createdAt p) (createdAt e)\<rparr>"

record PendingUpdates =
  pendingName :: string
  pendingEmail :: string
  pendingDate :: string

record User =
  uid :: string
  name :: string
  email :: string
  password :: string
  role :: UserRole
  avatar :: string
  pendingUpdates :: "PendingUpdates option"

section \<open>The backing store\<close>

text \<open>
  Firestore is an external service. This section states the part of its contract the
  providers rely on (spec, section 6): documents under their ids, keyed put, patch and
  delete, a filtered read, and a batch of deletes committed in one step.

  A document of the cloud collection \<^verbatim>\<open>expenses\<close>. addExpense writes the expense as it
  is (\<open>Plain\<close>); the snapshot handler also accepts a document whose \<^verbatim>\<open>createdAt\<close> is a
  Firestore Timestamp (\<open>Stamped e ms\<close>: the fields of \<open>e\<close>, with the timestamp \<open>ms\<close>
  milliseconds after the epoch in place of \<open>createdAt e\<close>).
\<close>

datatype ExpenseDoc = Plain Expense | Stamped Expense int

fun docFields :: "ExpenseDoc \<Rightarrow> Expense" where
  "docFields (Plain e) = e"
| "docFields (Stamped e ms) = e"

text \<open>
  The requests the providers send to Firestore. A collection is a list of documents
  under their document ids, in the order a snapshot delivers them.
\<close>

datatype Request =
    SetExpenseDoc string Expense
  | UpdateExpenseDoc string ExpensePatch
  | DeleteExpenseDoc string
  | GetExpenseDocsByUserId string
  | CommitBatchDelete "string list"
  | SetUserDoc string User
  | UpdateUserPending string PendingUpdates
  | DeleteUserDoc string

record Store =
  usersDocs :: "(string \<times> User) list"
  expensesDocs :: "(string \<times> ExpenseDoc) list"

text \<open>
  \<^verbatim>\<open>getDocs(query(collection(db, 'expenses'), where("userId", "==", userId)))\<close>.
\<close>

definition getDocsByUserId :: "string \<Rightarrow> (string \<times> ExpenseDoc) list \<Rightarrow> (string \<times> ExpenseDoc) list" where
  "getDocsByUserId owner docs = filter (\<lambda>kd. userId (docFields (snd kd)) = owner) docs"

text \<open>
  What the store holds after a delete: \<^verbatim>\<open>deleteDoc\<close> removes the document with that id
  (nothing happens when there is none), a committed batch of deletes removes all its
  documents in one step.
\<close>

definition deleteDocs :: "string list \<Rightarrow> (string \<times> 'a) list \<Rightarrow> (string \<times> 'a) list" where
  "deleteDocs ks docs = filter (\<lambda>kd. fst kd \<notin> set ks) docs"

section \<open>The expense repository (ExpenseContext.tsx)\<close>

text \<open>
  The state both providers share: \<open>useCloud\<close> is the provider's flag, \<open>db\<close> says whether
  \<^verbatim>\<open>services/firebase\<close> exported a Firestore handle (it is fixed when the module loads).
\<close>

record Provider =
  useCloud :: bool
  db :: bool

text \<open>
  \<open>track_expense_data\<close> is the localStorage entry of that name. The entry holds the text
  \<^verbatim>\<open>JSON.stringify(expenses)\<close>; the state keeps the collection that was serialised
  (\<open>None\<close>: nothing written). Reading an entry back is modelled on its text, in the
  section on loading.
\<close>

record ExpenseState = Provider +
  expenses :: "Expense list"
  track_expense_data :: "Expense list option"

text \<open>
  Every operation returns the new state and the requests it sends to Firestore, in the
  order it sends them. In cloud mode the in-memory collection changes only when a
  snapshot arrives; a request that Firestore refuses leaves the state as it is as well
  (addExpense catches the error and shows an alert, the other operations let the promise
  reject; the rejection is part of the result for editExpense, below). Parameters that would share their name with a field are renamed: \<open>i\<close> for
  \<^verbatim>\<open>id\<close>, \<open>st_new\<close> for \<^verbatim>\<open>status\<close>, \<open>n\<close> for \<^verbatim>\<open>notes\<close>, \<open>owner\<close> for \<^verbatim>\<open>userId\<close>.
\<close>

definition addExpense :: "Expense \<Rightarrow> ExpenseState \<Rightarrow> ExpenseState \<times> Request list" where
  "addExpense expense st =
     (if useCloud st \<and> db st then (st, [SetExpenseDoc (eid expense) expense])
      else (st\<lparr>expenses := expense # expenses st\<rparr>, []))"

text \<open>
  The optional argument \<^verbatim>\<open>notes?: string\<close> is \<open>None\<close> when absent; the test
  \<^verbatim>\<open>notes ? notes : exp.notes\<close> takes the argument when it is a non-empty string.
\<close>

definition notesOr :: "string option \<Rightarrow> string \<Rightarrow> string" where
  "notesOr n old = (case n of None \<Rightarrow> old | Some s \<Rightarrow> if s = [] then old else s)"

definition updateData :: "ExpenseStatus \<Rightarrow> string option \<Rightarrow> ExpensePatch" where
  "updateData st_new n =
     noPatch\<lparr>p_status := Some st_new,
             p_notes := (case n of None \<Rightarrow> None | Some s \<Rightarrow> if s = [] then None else Some s)\<rparr>"

definition updateStatus ::
  "string \<Rightarrow> ExpenseStatus \<Rightarrow> string option \<Rightarrow> ExpenseState \<Rightarrow> ExpenseState \<times> Request list" where
  "updateStatus i st_new n st =
     (if useCloud st \<and> db st then (st, [UpdateExpenseDoc i (updateData st_new n)])
      else (st\<lparr>expenses :=
                  map (\<lambda>e. if eid e = i then e\<lparr>status := st_new, notes := notesOr n (notes e)\<rparr> else e)
                    (expenses st)\<rparr>, []))"

definition deleteExpense :: "string \<Rightarrow> ExpenseState \<Rightarrow> ExpenseState \<times> Request list" where
  "deleteExpense i st =
     (if useCloud st \<and> db st then (st, [DeleteExpenseDoc i])
      else (st\<lparr>expenses := filter (\<lambda>e. eid e \<noteq> i) (expenses st)\<rparr>, []))"

text \<open>
  In cloud mode deleteExpensesByUserId first awaits the query, then puts one delete per
  returned document into a single write batch and commits it. \<open>docs\<close> is the cloud
  collection the query is answered from.
\<close>

definition deleteExpensesByUserId ::
  "string \<Rightarrow> (string \<times> ExpenseDoc) list \<Rightarrow> ExpenseState \<Rightarrow> ExpenseState \<times> Request list" where
  "deleteExpensesByUserId owner docs st =
     (if useCloud st \<and> db st
      then (st, [GetExpenseDocsByUserId owner,
                 CommitBatchDelete (map fst (getDocsByUserId owner docs))])
      else (st\<lparr>expenses := filter (\<lambda>e. userId e \<noteq> owner) (expenses st)\<rparr>, []))"



definition getExpensesByUser :: "string \<Rightarrow> ExpenseState \<Rightarrow> Expense list" where
  "getExpensesByUser owner st = filter (\<lambda>e. userId e = owner) (expenses st)"

subsection \<open>The snapshot handler\<close>

text \<open>
  \<^verbatim>\<open>new Date(s).getTime()\<close> and \<^verbatim>\<open>toDate().toISOString()\<close> are the JavaScript built-ins;
  they are parameters here: \<open>getTime s\<close> is \<open>None\<close> for an invalid date (NaN), and
  \<open>toISOString ms\<close> prints a timestamp. The handler builds
  \<^verbatim>\<open>{ id: doc.id, ...data, createdAt }\<close>: the data written by addExpense carries its own
  \<^verbatim>\<open>id\<close>, which the spread keeps.
\<close>

fun fromDoc :: "(int \<Rightarrow> string) \<Rightarrow> ExpenseDoc \<Rightarrow> Expense" where
  "fromDoc toISOString (Plain e) = e"
| "fromDoc toISOString (Stamped e ms) = e\<lparr>createdAt := toISOString ms\<rparr>"

text \<open>
  The comparator \<^verbatim>\<open>(a, b) => new Date(b.createdAt).getTime() - new Date(a.createdAt).getTime()\<close>.
  A NaN result counts as 0 in \<^verbatim>\<open>Array.prototype.sort\<close>.
\<close>

definition newToOld :: "(string \<Rightarrow> int option) \<Rightarrow> Expense \<Rightarrow> Expense \<Rightarrow> int" where
  "newToOld getTime a b =
     (case getTime (createdAt b) of
        None \<Rightarrow> 0
      | Some tb \<Rightarrow> (case getTime (createdAt a) of None \<Rightarrow> 0 | Some ta \<Rightarrow> tb - ta))"

text \<open>
  \<^verbatim>\<open>Array.prototype.sort\<close> with a comparator is stable: elements that compare equal keep
  their order. The model inserts from the right, each element in front of the first one
  it does not have to follow.
\<close>

fun placeBy :: "('a \<Rightarrow> 'a \<Rightarrow> int) \<Rightarrow> 'a \<Rightarrow> 'a list \<Rightarrow> 'a list" where
  "placeBy cmp x [] = [x]"
| "placeBy cmp x (y # ys) = (if cmp x y \<le> 0 then x # y # ys else y # placeBy cmp x ys)"

definition sortBy :: "('a \<Rightarrow> 'a \<Rightarrow> int) \<Rightarrow> 'a list \<Rightarrow> 'a list" where
  "sortBy cmp xs = foldr (placeBy cmp) xs []"

definition onSnapshot ::
  "(int \<Rightarrow> string) \<Rightarrow> (string \<Rightarrow> int option) \<Rightarrow> (string \<times> ExpenseDoc) list \<Rightarrow> ExpenseState \<Rightarrow> ExpenseState" where
  "onSnapshot toISOString getTime docs st =
     st\<lparr>expenses := sortBy (newToOld getTime) (map (\<lambda>kd. fromDoc toISOString (snd kd)) docs)\<rparr>"

text \<open>
  Newest first: of two records of the collection, the one in front was created at the
  same time as the other or later, both creation times being valid dates.
\<close>

definition notOlder :: "(string \<Rightarrow> int option) \<Rightarrow> Expense \<Rightarrow> Expense \<Rightarrow> bool" where
  "notOlder getTime a b =
     (case getTime (createdAt a) of
        None \<Rightarrow> False
      | Some ta \<Rightarrow> (case getTime (createdAt b) of None \<Rightarrow> False | Some tb \<Rightarrow> tb \<le> ta))"

definition newestFirst :: "(string \<Rightarrow> int option) \<Rightarrow> Expense list \<Rightarrow> bool" where
  "newestFirst getTime xs = sorted_wrt (notOlder getTime) xs"

definition newer :: "(string \<Rightarrow> int option) \<Rightarrow> Expense \<Rightarrow> Expense \<Rightarrow> bool" where
  "newer getTime a b =
     (case getTime (createdAt a) of
        None \<Rightarrow> False
      | Some ta \<Rightarrow> (case getTime (createdAt b) of None \<Rightarrow> False | Some tb \<Rightarrow> tb < ta))"

text \<open>
  A sequence of create calls, first call first, each expense created later than every
  record the collection holds at that moment.
\<close>

fun createAll :: "Expense list \<Rightarrow> ExpenseState \<Rightarrow> ExpenseState" where
  "createAll [] st = st"
| "createAll (e # es) st = createAll es (fst (addExpense e st))"

fun eachLater :: "(string \<Rightarrow> int option) \<Rightarrow> Expense list \<Rightarrow> Expense list \<Rightarrow> bool" where
  "eachLater getTime [] xs = True"
| "eachLater getTime (e # es) xs = (list_all (newer getTime e) xs \<and> eachLater getTime es (e # xs))"

subsection \<open>Saving to localStorage\<close>

text \<open>
  \<^verbatim>\<open>localStorage.setItem\<close> throws when the quota is exceeded; \<open>accepts\<close> says which
  snapshots the storage has room for.
\<close>

datatype StorageError = QuotaExceededError

definition setItem :: "('v \<Rightarrow> bool) \<Rightarrow> 'v \<Rightarrow> 'v option \<Rightarrow> StorageError + 'v option" where
  "setItem accepts v entry = (if accepts v then Inr (Some v) else Inl QuotaExceededError)"

text \<open>
  The effect "Sync to local as backup" of ExpenseContext.tsx (lines 69 to 77): the catch
  branch only logs.
\<close>

definition syncToLocal :: "(Expense list \<Rightarrow> bool) \<Rightarrow> ExpenseState \<Rightarrow> ExpenseState" where
  "syncToLocal accepts st =
     (if \<not> useCloud st
      then (case setItem accepts (expenses st) (track_expense_data st) of
              Inr entry \<Rightarrow> st\<lparr>track_expense_data := entry\<rparr>
            | Inl error \<Rightarrow> st)
      else st)"

text \<open>
  The save effect of the local-only provider (the ExpenseProvider kept in
  UserManagement.tsx, lines 902 to 920): the catch branch saves again without the images.
\<close>

definition lightweightExpenses :: "Expense list \<Rightarrow> Expense list" where
  "lightweightExpenses xs = map (\<lambda>e. e\<lparr>imageUrl := []\<rparr>) xs"

definition saveWithFallback :: "(Expense list \<Rightarrow> bool) \<Rightarrow> ExpenseState \<Rightarrow> ExpenseState" where
  "saveWithFallback accepts st =
     (case setItem accepts (expenses st) (track_expense_data st) of
        Inr entry \<Rightarrow> st\<lparr>track_expense_data := entry\<rparr>
      | Inl error \<Rightarrow>
          (case setItem accepts (lightweightExpenses (expenses st)) (track_expense_data st) of
             Inr entry \<Rightarrow> st\<lparr>track_expense_data := entry\<rparr>
           | Inl retryError \<Rightarrow> st))"

subsection \<open>Loading from localStorage\<close>

text \<open>
  \<^verbatim>\<open>JSON.parse\<close> is a parameter: \<open>None\<close> is its SyntaxError. A loader returns what it
  hands to the state setter: the seed (\<^verbatim>\<open>MOCK_EXPENSES\<close>, \<^verbatim>\<open>MOCK_USERS\<close>; mockData.ts
  is not among the sources, so the seed is a parameter) or the parsed value, which the
  source does not check any further. \<^verbatim>\<open>getItem\<close> gives \<open>None\<close> for a missing entry, and
  the empty text is falsy.
\<close>

datatype Json =
  JNull | JBool bool | JNumber real | JString string | JArray "Json list" | JObject "(string \<times> Json) list"

fun isArray :: "Json \<Rightarrow> bool" where
  "isArray (JArray vs) = True"
| "isArray v = False"

datatype 'a Loaded = Seed "'a list" | Parsed Json

definition loadFromLocal_expenses ::
  "(string \<Rightarrow> Json option) \<Rightarrow> Expense list \<Rightarrow> string option \<Rightarrow> Expense Loaded" where
  "loadFromLocal_expenses JSON_parse MOCK_EXPENSES savedExpenses =
     (case savedExpenses of
        None \<Rightarrow> Seed MOCK_EXPENSES
      | Some s \<Rightarrow>
          if s = [] then Seed MOCK_EXPENSES
          else (case JSON_parse s of
                  None \<Rightarrow> Seed MOCK_EXPENSES
                | Some parsed \<Rightarrow> if isArray parsed then Parsed parsed else Seed MOCK_EXPENSES))"

section \<open>The user repository (AuthContext.tsx)\<close>

record AuthState = Provider +
  allUsers :: "User list"
  user :: "User option"
  billboard_user_id :: "string option"

definition loadFromLocal_users ::
  "(string \<Rightarrow> Json option) \<Rightarrow> User list \<Rightarrow> string option \<Rightarrow> User Loaded" where
  "loadFromLocal_users JSON_parse MOCK_USERS savedUsers =
     (case savedUsers of
        None \<Rightarrow> Seed MOCK_USERS
      | Some s \<Rightarrow>
          if s = [] then Seed MOCK_USERS
          else (case JSON_parse s of
                  None \<Rightarrow> Seed MOCK_USERS
                | Some parsed \<Rightarrow> Parsed parsed))"

subsection \<open>signup\<close>

text \<open>
  \<^verbatim>\<open>Date.now()\<close> is the parameter \<open>now\<close>, printed in decimal by the template string.
  \<^verbatim>\<open>toLowerCase\<close> and \<^verbatim>\<open>encodeURIComponent\<close> are parameters too, and \<open>setDocOk\<close>
  says whether the awaited \<^verbatim>\<open>setDoc\<close> succeeded. The result is the new state, the
  requests sent and the alert shown, if any.
\<close>

definition digit :: "nat \<Rightarrow> char" where
  "digit n = ''0123456789'' ! n"

function decimal :: "nat \<Rightarrow> string" where
  "decimal n = (if n < 10 then [digit n] else decimal (n div 10) @ [digit (n mod 10)])"
  by pat_completeness auto
termination
  by (relation "measure (\<lambda>n. n)") auto

declare decimal.simps [simp del]

definition avatarFor :: "(string \<Rightarrow> string) \<Rightarrow> string \<Rightarrow> string" where
  "avatarFor encodeURIComponent nm =
     ''https://ui-avatars.com/api/?name='' @ encodeURIComponent nm
       @ ''&background=random&color=fff&background=2563eb''"

definition newUser :: "(string \<Rightarrow> string) \<Rightarrow> nat \<Rightarrow> string \<Rightarrow> string \<Rightarrow> string \<Rightarrow> User" where
  "newUser encodeURIComponent now nm em pw =
     \<lparr>uid = ''u-'' @ decimal now, name = nm, email = em, password = pw, role = SALES,
      avatar = avatarFor encodeURIComponent nm, pendingUpdates = None\<rparr>"

definition signup ::
  "(string \<Rightarrow> string) \<Rightarrow> (string \<Rightarrow> string) \<Rightarrow> nat \<Rightarrow> bool \<Rightarrow>
   string \<Rightarrow> string \<Rightarrow> string \<Rightarrow> AuthState \<Rightarrow> AuthState \<times> Request list \<times> string option" where
  "signup toLowerCase encodeURIComponent now setDocOk nm em pw st =
     (case find (\<lambda>u. toLowerCase (email u) = toLowerCase em) (allUsers st) of
        Some existing \<Rightarrow> (st, [], Some ''User already exists with this email. Please login.'')
      | None \<Rightarrow>
          (let nu = newUser encodeURIComponent now nm em pw;
               appended = st\<lparr>allUsers := allUsers st @ [nu]\<rparr>;
               st1 = (if useCloud st then (if setDocOk then st else appended) else appended)
           in (st1\<lparr>user := Some nu, billboard_user_id := Some (uid nu)\<rparr>,
               (if useCloud st then [SetUserDoc (uid nu) nu] else []),
               None)))"

subsection \<open>The profile change workflow\<close>

text \<open>\<open>nowIso\<close> is \<^verbatim>\<open>new Date().toISOString()\<close> at the time of the request.\<close>

definition requestProfileUpdate ::
  "string \<Rightarrow> string \<Rightarrow> string \<Rightarrow> string \<Rightarrow> AuthState \<Rightarrow> AuthState \<times> Request list" where
  "requestProfileUpdate target nm em nowIso st =
     (let pend = \<lparr>pendingName = nm, pendingEmail = em, pendingDate = nowIso\<rparr>
      in if useCloud st then (st, [UpdateUserPending target pend])
         else (st\<lparr>allUsers := map (\<lambda>u. if uid u = target then u\<lparr>pendingUpdates := Some pend\<rparr> else u)
                                (allUsers st)\<rparr>, []))"

text \<open>
  resolveProfileUpdate of AuthContext.tsx (lines 181 to 216). The guard looks at the first
  user with that id; the local branch then maps over all users and reads
  \<^verbatim>\<open>u.pendingUpdates!.name\<close> of every user with that id: on a user without a pending
  update this read throws a TypeError.
\<close>

datatype JsError = TypeError

definition approved :: "User \<Rightarrow> PendingUpdates \<Rightarrow> User" where
  "approved u p = u\<lparr>name := pendingName p, email := pendingEmail p, pendingUpdates := None\<rparr>"

definition rejected :: "User \<Rightarrow> User" where
  "rejected u = u\<lparr>pendingUpdates := None\<rparr>"

definition resolveOne :: "string \<Rightarrow> bool \<Rightarrow> User \<Rightarrow> JsError + User" where
  "resolveOne target approve u =
     (if uid u = target
      then (if approve
            then (case pendingUpdates u of None \<Rightarrow> Inl TypeError | Some p \<Rightarrow> Inr (approved u p))
            else Inr (rejected u))
      else Inr u)"

fun mapE :: "('a \<Rightarrow> 'e + 'b) \<Rightarrow> 'a list \<Rightarrow> 'e + 'b list" where
  "mapE f [] = Inr []"
| "mapE f (x # xs) =
     (case f x of
        Inl err \<Rightarrow> Inl err
      | Inr y \<Rightarrow> (case mapE f xs of Inl err \<Rightarrow> Inl err | Inr ys \<Rightarrow> Inr (y # ys)))"

definition resolveProfileUpdate ::
  "string \<Rightarrow> bool \<Rightarrow> AuthState \<Rightarrow> JsError + AuthState \<times> Request list" where
  "resolveProfileUpdate target approve st =
     (case find (\<lambda>u. uid u = target) (allUsers st) of
        None \<Rightarrow> Inr (st, [])
      | Some userToUpdate \<Rightarrow>
          (case pendingUpdates userToUpdate of
             None \<Rightarrow> Inr (st, [])
           | Some p \<Rightarrow>
               if useCloud st
               then Inr (st, [SetUserDoc target
                                (if approve then approved userToUpdate p else rejected userToUpdate)])
               else (case mapE (resolveOne target approve) (allUsers st) of
                       Inl err \<Rightarrow> Inl err
                     | Inr us \<Rightarrow> Inr (st\<lparr>allUsers := us\<rparr>, []))))"

text \<open>
  resolveProfileUpdate of the local-only provider (AuthContext.tsx, lines 400 to 419): the
  pending update is tested on each user inside the map.
\<close>

definition resolveProfileUpdate_localOnly :: "string \<Rightarrow> bool \<Rightarrow> AuthState \<Rightarrow> AuthState" where
  "resolveProfileUpdate_localOnly target approve st =
     st\<lparr>allUsers :=
          map (\<lambda>u. case pendingUpdates u of
                     None \<Rightarrow> u
                   | Some p \<Rightarrow> if uid u = target then (if approve then approved u p else rejected u) else u)
            (allUsers st)\<rparr>"

subsection \<open>Deleting a user\<close>

definition logout :: "AuthState \<Rightarrow> AuthState" where
  "logout st = st\<lparr>user := None, billboard_user_id := None\<rparr>"

definition deleteUser :: "string \<Rightarrow> AuthState \<Rightarrow> AuthState \<times> Request list" where
  "deleteUser target st =
     (let st1 = (if useCloud st then st
                 else st\<lparr>allUsers := filter (\<lambda>u. uid u \<noteq> target) (allUsers st)\<rparr>);
          st2 = (case user st of
                   None \<Rightarrow> st1
                 | Some u \<Rightarrow> if uid u = target then logout st1 else st1)
      in (st2, if useCloud st then [DeleteUserDoc target] else []))"

section \<open>The admin delete flow (UserManagement.tsx, confirmDelete)\<close>

text \<open>
  confirmDelete calls deleteExpensesByUserId and then deleteUser, both async, and awaits
  neither (it then closes the modal, which is not modelled). An async function runs up to its first \<^verbatim>\<open>await\<close> when it is called and
  continues after the caller has gone on; every request of the two functions is awaited.
  So each call sends its first request at once and the rest when it resumes:
  \<open>unawaited\<close> gives the order in which the requests of two such calls are sent
  (deleteUser, the second call here, sends one request at most).
\<close>

definition unawaited :: "Request list \<Rightarrow> Request list \<Rightarrow> Request list" where
  "unawaited first second = take 1 first @ take 1 second @ drop 1 first @ drop 1 second"

definition confirmDelete ::
  "User option \<Rightarrow> (string \<times> ExpenseDoc) list \<Rightarrow> AuthState \<times> ExpenseState \<Rightarrow>
   (AuthState \<times> ExpenseState) \<times> Request list" where
  "confirmDelete userToDelete docs app =
     (case userToDelete of
        None \<Rightarrow> (app, [])
      | Some u \<Rightarrow>
          (let cascade = deleteExpensesByUserId (uid u) docs (snd app);
               removal = deleteUser (uid u) (fst app)
           in ((fst removal, fst cascade), unawaited (snd cascade) (snd removal))))"

text \<open>
  The store after a request. A keyed put replaces or adds the document, a keyed patch
  changes an existing document and is refused when there is none, a read changes nothing.
\<close>

definition putDoc :: "string \<Rightarrow> 'a \<Rightarrow> (string \<times> 'a) list \<Rightarrow> (string \<times> 'a) list" where
  "putDoc k d docs =
     (if k \<in> set (map fst docs) then map (\<lambda>kd. if fst kd = k then (k, d) else kd) docs
      else docs @ [(k, d)])"

fun patchDoc :: "ExpensePatch \<Rightarrow> ExpenseDoc \<Rightarrow> ExpenseDoc" where
  "patchDoc p (Plain e) = Plain (spread e p)"
| "patchDoc p (Stamped e ms) =
     (case p_createdAt p of None \<Rightarrow> Stamped (spread e p) ms | Some c \<Rightarrow> Plain (spread e p))"

fun serve :: "Request \<Rightarrow> Store \<Rightarrow> Store" where
  "serve (SetExpenseDoc k e) s = s\<lparr>expensesDocs := putDoc k (Plain e) (expensesDocs s)\<rparr>"
| "serve (UpdateExpenseDoc k p) s =
     s\<lparr>expensesDocs := map (\<lambda>kd. if fst kd = k then (k, patchDoc p (snd kd)) else kd) (expensesDocs s)\<rparr>"
| "serve (DeleteExpenseDoc k) s = s\<lparr>expensesDocs := deleteDocs [k] (expensesDocs s)\<rparr>"
| "serve (GetExpenseDocsByUserId owner) s = s"
| "serve (CommitBatchDelete ks) s = s\<lparr>expensesDocs := deleteDocs ks (expensesDocs s)\<rparr>"
| "serve (SetUserDoc k u) s = s\<lparr>usersDocs := putDoc k u (usersDocs s)\<rparr>"
| "serve (UpdateUserPending k p) s =
     s\<lparr>usersDocs := map (\<lambda>kd. if fst kd = k then (k, (snd kd)\<lparr>pendingUpdates := Some p\<rparr>) else kd) (usersDocs s)\<rparr>"
| "serve (DeleteUserDoc k) s = s\<lparr>usersDocs := deleteDocs [k] (usersDocs s)\<rparr>"

text \<open>The store after each request of a list, in order.\<close>

fun storeStates :: "Request list \<Rightarrow> Store \<Rightarrow> Store list" where
  "storeStates [] s = []"
| "storeStates (r # rs) s = serve r s # storeStates rs (serve r s)"

text \<open>An orphan: an expense document whose owner has no user document.\<close>

definition orphans :: "Store \<Rightarrow> (string \<times> ExpenseDoc) list" where
  "orphans s =
     filter (\<lambda>kd. userId (docFields (snd kd)) \<notin> set (map (\<lambda>ku. uid (snd ku)) (usersDocs s)))
       (expensesDocs s)"

fun serveAll :: "Request list \<Rightarrow> Store \<Rightarrow> Store" where
  "serveAll [] s = s"
| "serveAll (r # rs) s = serveAll rs (serve r s)"

fun isWrite :: "Request \<Rightarrow> bool" where
  "isWrite (GetExpenseDocsByUserId owner) = False"
| "isWrite r = True"

section \<open>Frame of a profile resolution\<close>

text \<open>
  What resolveProfileUpdate may change of a user \<open>u\<close>, giving \<open>u'\<close>: nothing when the id
  of \<open>u\<close> is not the target, and otherwise at most name, email and pending update.
\<close>

definition sameButProfile :: "string \<Rightarrow> User \<Rightarrow> User \<Rightarrow> bool" where
  "sameButProfile target u u' =
     (uid u' = uid u \<and> password u' = password u \<and> role u' = role u \<and> avatar u' = avatar u
      \<and> (uid u \<noteq> target \<longrightarrow> u' = u))"

text \<open>
  The only request a resolution sends: a keyed put under the target id of a document that
  differs from a user of the collection with that id in the three profile fields at most.
\<close>

fun putsProfileOf :: "string \<Rightarrow> User list \<Rightarrow> Request \<Rightarrow> bool" where
  "putsProfileOf target us (SetUserDoc k d) =
     (k = target \<and> list_ex (\<lambda>u. uid u = target \<and> sameButProfile target u d) us)"
| "putsProfileOf target us r = False"

section \<open>Concrete data\<close>

text \<open>
  The scenario of the spec's testable properties: Alice (\<open>u1\<close>) and Bob (\<open>u2\<close>), the
  expenses \<open>e1\<close> and \<open>e2\<close> of Alice created on two successive days and \<open>e3\<close> of Bob.
\<close>

definition T1 :: string where "T1 = ''2024-01-01T10:00:00.000Z''"
definition T2 :: string where "T2 = ''2024-01-02T10:00:00.000Z''"
definition T3 :: string where "T3 = ''2024-01-03T10:00:00.000Z''"

definition clock :: "string \<Rightarrow> int option" where
  "clock s =
     (if s = T1 then Some 1704103200000
      else if s = T2 then Some 1704189600000
      else if s = T3 then Some 1704276000000
      else None)"

definition isoOf :: "int \<Rightarrow> string" where
  "isoOf ms = (if ms = 1704276000000 then T3 else if ms = 1704189600000 then T2 else T1)"

definition receipt :: "string \<Rightarrow> string \<Rightarrow> string \<Rightarrow> string \<Rightarrow> Expense" where
  "receipt i owner img created =
     \<lparr>eid = i, userId = owner, userName = ''Alice'', merchant = ''Cafe'', date = ''2024-01-01'',
      subtotal = 10, tax = 1, total = 11, category = RESTAURANT, imageUrl = img,
      status = SUBMITTED, notes = ''lunch'', createdAt = created\<rparr>"

definition e1 :: Expense where "e1 = receipt ''e1'' ''u1'' ''data:image/jpeg;base64,AAAA'' T1"
definition e2 :: Expense where "e2 = receipt ''e2'' ''u1'' [] T2"
definition e3 :: Expense where "e3 = receipt ''e3'' ''u2'' [] T3"

definition localExpenses :: "Expense list \<Rightarrow> ExpenseState" where
  "localExpenses xs = \<lparr>useCloud = False, db = False, expenses = xs, track_expense_data = None\<rparr>"

definition cloudExpenses :: "Expense list \<Rightarrow> ExpenseState" where
  "cloudExpenses xs = \<lparr>useCloud = True, db = True, expenses = xs, track_expense_data = None\<rparr>"

definition alice :: User where
  "alice = \<lparr>uid = ''u1'', name = ''Alice'', email = ''alice@x.com'', password = ''pw1'',
            role = SALES, avatar = [], pendingUpdates = None\<rparr>"

definition bob :: User where
  "bob = \<lparr>uid = ''u2'', name = ''Bob'', email = ''bob@x.com'', password = ''pw2'',
          role = MANAGER, avatar = [], pendingUpdates = None\<rparr>"

definition alicia :: PendingUpdates where
  "alicia = \<lparr>pendingName = ''Alicia'', pendingEmail = ''alicia@x.com'', pendingDate = T2\<rparr>"

definition localUsers :: "User list \<Rightarrow> AuthState" where
  "localUsers us = \<lparr>useCloud = False, db = False, allUsers = us, user = None, billboard_user_id = None\<rparr>"

definition cloudUsers :: "User list \<Rightarrow> AuthState" where
  "cloudUsers us = \<lparr>useCloud = True, db = True, allUsers = us, user = None, billboard_user_id = None\<rparr>"

text \<open>A storage with room for the text fields of a snapshot but for no image.\<close>

definition noRoomForImages :: "Expense list \<Rightarrow> bool" where
  "noRoomForImages xs = list_all (\<lambda>e. imageUrl e = []) xs"

text \<open>Lower-casing of ASCII letters, and a parser that knows the two texts used below.\<close>

definition lowerChar :: "char \<Rightarrow> char" where
  "lowerChar c =
     (if c \<in> set ''ABCDEFGHIJKLMNOPQRSTUVWXYZ''
      then the (map_of (zip ''ABCDEFGHIJKLMNOPQRSTUVWXYZ'' ''abcdefghijklmnopqrstuvwxyz'') c)
      else c)"

definition lowerAscii :: "string \<Rightarrow> string" where
  "lowerAscii s = map lowerChar s"

definition parseKnown :: "string \<Rightarrow> Json option" where
  "parseKnown s = (if s = ''{}'' then Some (JObject []) else if s = ''[]'' then Some (JArray []) else None)"

section \<open>Ordering of the expense collection\<close>

lemma mset_placeBy: "mset (placeBy cmp x ys) = add_mset x (mset ys)"
  by (induction ys) auto

lemma mset_sortBy: "mset (sortBy cmp xs) = mset xs"
  by (induction xs) (auto simp: sortBy_def mset_placeBy)

lemma set_placeBy: "set (placeBy cmp x ys) = insert x (set ys)"
  by (induction ys) auto

lemma set_sortBy: "set (sortBy cmp xs) = set xs"
  by (induction xs) (auto simp: sortBy_def set_placeBy)

lemma notOlder_trans:
  "notOlder getTime a b \<Longrightarrow> notOlder getTime b c \<Longrightarrow> notOlder getTime a c"
  by (auto simp: notOlder_def split: option.splits)

lemma newToOld_le:
  "getTime (createdAt a) \<noteq> None \<Longrightarrow> getTime (createdAt b) \<noteq> None \<Longrightarrow>
   newToOld getTime a b \<le> 0 \<Longrightarrow> notOlder getTime a b"
  by (auto simp: notOlder_def newToOld_def split: option.splits)

lemma newToOld_gt:
  "getTime (createdAt a) \<noteq> None \<Longrightarrow> getTime (createdAt b) \<noteq> None \<Longrightarrow>
   \<not> newToOld getTime a b \<le> 0 \<Longrightarrow> notOlder getTime b a"
  by (auto simp: notOlder_def newToOld_def split: option.splits)

lemma sorted_placeBy:
  "getTime (createdAt x) \<noteq> None \<Longrightarrow> \<forall>y\<in>set ys. getTime (createdAt y) \<noteq> None \<Longrightarrow>
   sorted_wrt (notOlder getTime) ys \<Longrightarrow>
   sorted_wrt (notOlder getTime) (placeBy (newToOld getTime) x ys)"
proof (induction ys)
  case Nil
  then show ?case by simp
next
  case (Cons y ys)
  show ?case
  proof (cases "newToOld getTime x y \<le> 0")
    case True
    with Cons.prems have xy: "notOlder getTime x y" by (simp add: newToOld_le)
    with Cons.prems have "\<forall>z\<in>set ys. notOlder getTime x z"
      by (auto intro: notOlder_trans)
    with True xy Cons.prems show ?thesis by simp
  next
    case False
    with Cons.prems have "notOlder getTime y x" by (simp add: newToOld_gt)
    with False Cons show ?thesis by (auto simp: set_placeBy)
  qed
qed

lemma sorted_sortBy:
  "\<forall>x\<in>set xs. getTime (createdAt x) \<noteq> None \<Longrightarrow>
   sorted_wrt (notOlder getTime) (sortBy (newToOld getTime) xs)"
proof (induction xs)
  case Nil
  then show ?case by (simp add: sortBy_def)
next
  case (Cons x xs)
  then have "sorted_wrt (notOlder getTime) (sortBy (newToOld getTime) xs)" by simp
  moreover have "\<forall>y\<in>set (sortBy (newToOld getTime) xs). getTime (createdAt y) \<noteq> None"
    using Cons.prems by (simp add: set_sortBy)
  ultimately have "sorted_wrt (notOlder getTime) (placeBy (newToOld getTime) x (sortBy (newToOld getTime) xs))"
    using Cons.prems by (intro sorted_placeBy) simp_all
  then show ?case by (simp add: sortBy_def)
qed

lemma createAll_local:
  "\<not> (useCloud st \<and> db st) \<Longrightarrow> createAll es st = st\<lparr>expenses := rev es @ expenses st\<rparr>"
  by (induction es arbitrary: st) (auto simp: addExpense_def)

lemma newer_notOlder: "newer getTime a b \<Longrightarrow> notOlder getTime a b"
  by (auto simp: newer_def notOlder_def split: option.splits)

lemma eachLater_newestFirst:
  "newestFirst getTime xs \<Longrightarrow> eachLater getTime es xs \<Longrightarrow> newestFirst getTime (rev es @ xs)"
proof (induction es arbitrary: xs)
  case Nil
  then show ?case by simp
next
  case (Cons e es)
  from Cons.prems have "newestFirst getTime (e # xs)"
    by (auto simp: newestFirst_def list_all_iff intro: newer_notOlder)
  with Cons.prems Cons.IH [of "e # xs"] show ?case by simp
qed

lemma newestFirst_filter: "newestFirst getTime xs \<Longrightarrow> newestFirst getTime (filter P xs)"
  by (simp add: newestFirst_def sorted_wrt_filter)

lemma times_of_sorted:
  assumes "\<forall>x\<in>set xs. getTime (createdAt x) \<noteq> None" "sorted_wrt (notOlder getTime) xs"
  shows "sorted (map (\<lambda>e. - the (getTime (createdAt e))) xs)"
proof -
  have "sorted_wrt (\<lambda>a b. - the (getTime (createdAt a)) \<le> - the (getTime (createdAt b))) xs"
    using assms(2)
    by (rule sorted_wrt_mono_rel [rotated]) (auto simp: notOlder_def split: option.splits)
  then show ?thesis by (simp add: sorted_map)
qed

lemma same_times:
  assumes "\<forall>x\<in>set xs. getTime (createdAt x) \<noteq> None"
    and "sorted_wrt (notOlder getTime) xs" "sorted_wrt (notOlder getTime) ys" "mset xs = mset ys"
  shows "map (\<lambda>e. getTime (createdAt e)) xs = map (\<lambda>e. getTime (createdAt e)) ys"
proof -
  let ?k = "\<lambda>e. - the (getTime (createdAt e))"
  from assms(4) have s: "set ys = set xs" by (metis set_mset_mset)
  with assms(1) have ys: "\<forall>x\<in>set ys. getTime (createdAt x) \<noteq> None" by simp
  have "sorted (map ?k xs)" "sorted (map ?k ys)"
    using assms ys by (simp_all add: times_of_sorted)
  moreover have "mset (map ?k xs) = mset (map ?k ys)"
    using assms(4) by (metis mset_map)
  ultimately have k: "map ?k xs = map ?k ys"
    by (metis properties_for_sort)
  have "map (\<lambda>e. getTime (createdAt e)) zs = map (\<lambda>k. Some (- k)) (map ?k zs)"
    if "\<forall>x\<in>set zs. getTime (createdAt x) \<noteq> None" for zs :: "Expense list"
    using that by (induction zs) auto
  with assms(1) ys k show ?thesis by metis
qed

lemma onSnapshot_sorted:
  assumes "list_all (\<lambda>kd. getTime (createdAt (fromDoc toISOString (snd kd))) \<noteq> None) docs"
  shows "newestFirst getTime (expenses (onSnapshot toISOString getTime docs st))"
proof -
  from assms have "\<forall>x\<in>set (map (\<lambda>kd. fromDoc toISOString (snd kd)) docs). getTime (createdAt x) \<noteq> None"
    by (simp add: list_all_iff)
  then show ?thesis
    unfolding onSnapshot_def newestFirst_def by (simp add: sorted_sortBy)
qed

lemma onSnapshot_mset:
  "mset (expenses (onSnapshot toISOString getTime docs st))
   = mset (map (\<lambda>kd. fromDoc toISOString (snd kd)) docs)"
  by (simp add: onSnapshot_def mset_sortBy)

text \<open>
  Claim C2. In local mode, after a sequence of create calls getExpensesByUser returns the
  owner's new records in reverse order of creation, in front of the owner's old ones;
  when the collection was newest first before and each new expense is created later than
  every record held at that moment, the result is newest first. In cloud mode the
  collection set by the snapshot handler is newest first and holds exactly the delivered
  records, provided their creation times are valid dates; delivering the same documents
  in another order gives the same sequence of creation times.
\<close>

theorem newest_first_order:
  "(\<not> (useCloud st \<and> db st) \<longrightarrow>
      getExpensesByUser owner (createAll es st)
        = filter (\<lambda>e. userId e = owner) (rev es) @ getExpensesByUser owner st
      \<and> (newestFirst getTime (expenses st) \<and> eachLater getTime es (expenses st) \<longrightarrow>
           newestFirst getTime (getExpensesByUser owner (createAll es st))))
   \<and> (list_all (\<lambda>kd. getTime (createdAt (fromDoc toISOString (snd kd))) \<noteq> None) docs \<longrightarrow>
      newestFirst getTime (expenses (onSnapshot toISOString getTime docs st))
      \<and> mset (expenses (onSnapshot toISOString getTime docs st))
          = mset (map (\<lambda>kd. fromDoc toISOString (snd kd)) docs)
      \<and> (mset docs' = mset docs \<longrightarrow>
           map (\<lambda>e. getTime (createdAt e)) (expenses (onSnapshot toISOString getTime docs' st'))
             = map (\<lambda>e. getTime (createdAt e)) (expenses (onSnapshot toISOString getTime docs st))))"
proof (intro conjI impI)
  assume a: "\<not> (useCloud st \<and> db st)"
  then have c: "expenses (createAll es st) = rev es @ expenses st"
    by (simp add: createAll_local)
  show "getExpensesByUser owner (createAll es st)
        = filter (\<lambda>e. userId e = owner) (rev es) @ getExpensesByUser owner st"
    by (simp add: getExpensesByUser_def c)
  assume "newestFirst getTime (expenses st) \<and> eachLater getTime es (expenses st)"
  then have "newestFirst getTime (rev es @ expenses st)"
    by (simp add: eachLater_newestFirst)
  then show "newestFirst getTime (getExpensesByUser owner (createAll es st))"
    unfolding getExpensesByUser_def c by (rule newestFirst_filter)
next
  assume p: "list_all (\<lambda>kd. getTime (createdAt (fromDoc toISOString (snd kd))) \<noteq> None) docs"
  then show "newestFirst getTime (expenses (onSnapshot toISOString getTime docs st))"
    by (rule onSnapshot_sorted)
  show "mset (expenses (onSnapshot toISOString getTime docs st))
          = mset (map (\<lambda>kd. fromDoc toISOString (snd kd)) docs)"
    by (rule onSnapshot_mset)
  assume m: "mset docs' = mset docs"
  then have "set docs' = set docs" by (metis set_mset_mset)
  with p have p': "list_all (\<lambda>kd. getTime (createdAt (fromDoc toISOString (snd kd))) \<noteq> None) docs'"
    by (simp add: list_all_iff)
  let ?xs = "expenses (onSnapshot toISOString getTime docs' st')"
  let ?ys = "expenses (onSnapshot toISOString getTime docs st)"
  from m have "mset (map (\<lambda>kd. fromDoc toISOString (snd kd)) docs')
      = mset (map (\<lambda>kd. fromDoc toISOString (snd kd)) docs)"
    by (metis mset_map)
  then have e: "mset ?xs = mset ?ys" by (simp add: onSnapshot_mset)
  have "\<forall>x\<in>set ?xs. getTime (createdAt x) \<noteq> None"
    using p' by (auto simp: onSnapshot_def set_sortBy list_all_iff)
  moreover have "sorted_wrt (notOlder getTime) ?xs" "sorted_wrt (notOlder getTime) ?ys"
    using onSnapshot_sorted [OF p'] onSnapshot_sorted [OF p] by (simp_all add: newestFirst_def)
  ultimately show "map (\<lambda>e. getTime (createdAt e)) ?xs = map (\<lambda>e. getTime (createdAt e)) ?ys"
    using e by (rule same_times)
qed

lemmas example_defs =
  e1_def e2_def e3_def receipt_def T1_def T2_def T3_def clock_def isoOf_def
  localExpenses_def cloudExpenses_def

theorem newest_first_order_witness:
  "getExpensesByUser ''u1'' (createAll [e1, e2, e3] (localExpenses [])) = [e2, e1]
   \<and> newestFirst clock (getExpensesByUser ''u1'' (createAll [e1, e2, e3] (localExpenses [])))
   \<and> newestFirst clock
        (expenses (onSnapshot isoOf clock
           [(''e1'', Plain e1), (''e3'', Stamped e3 1704276000000), (''e2'', Plain e2)] (cloudExpenses [])))
   \<and> expenses (onSnapshot isoOf clock
           [(''e1'', Plain e1), (''e3'', Stamped e3 1704276000000), (''e2'', Plain e2)] (cloudExpenses []))
       = [e3, e2, e1]
   \<and> map createdAt (expenses (onSnapshot isoOf clock
           [(''e2'', Plain e2), (''e1'', Plain e1), (''e3'', Stamped e3 1704276000000)] (cloudExpenses [])))
       = [T3, T2, T1]"
  using
    newest_first_order [where st = "localExpenses []" and getTime = clock and es = "[e1, e2, e3]"
      and owner = "''u1''" and toISOString = isoOf and st' = "cloudExpenses []"
      and docs = "[(''e1'', Plain e1), (''e3'', Stamped e3 1704276000000), (''e2'', Plain e2)]"
      and docs' = "[(''e2'', Plain e2), (''e1'', Plain e1), (''e3'', Stamped e3 1704276000000)]"]
    newest_first_order [where st = "cloudExpenses []" and getTime = clock and es = "[]"
      and owner = "''u1''" and toISOString = isoOf and st' = "cloudExpenses []"
      and docs = "[(''e1'', Plain e1), (''e3'', Stamped e3 1704276000000), (''e2'', Plain e2)]"
      and docs' = "[(''e2'', Plain e2), (''e1'', Plain e1), (''e3'', Stamped e3 1704276000000)]"]
  by (simp add: example_defs newestFirst_def newer_def notOlder_def getExpensesByUser_def
      addExpense_def onSnapshot_def sortBy_def newToOld_def)

section \<open>Bulk delete by owner\<close>

lemma deleteDocs_byUserId:
  assumes "distinct (map fst docs)"
  shows "deleteDocs (map fst (getDocsByUserId owner docs)) docs
         = filter (\<lambda>kd. userId (docFields (snd kd)) \<noteq> owner) docs"
proof -
  have "fst kd \<notin> set (map fst (getDocsByUserId owner docs)) \<longleftrightarrow> userId (docFields (snd kd)) \<noteq> owner"
    if "kd \<in> set docs" for kd
  proof
    assume "fst kd \<notin> set (map fst (getDocsByUserId owner docs))"
    with that show "userId (docFields (snd kd)) \<noteq> owner"
      by (force simp: getDocsByUserId_def)
  next
    assume ne: "userId (docFields (snd kd)) \<noteq> owner"
    show "fst kd \<notin> set (map fst (getDocsByUserId owner docs))"
    proof
      assume "fst kd \<in> set (map fst (getDocsByUserId owner docs))"
      then obtain kd' where kd': "kd' \<in> set docs" "userId (docFields (snd kd')) = owner" "fst kd' = fst kd"
        by (auto simp: getDocsByUserId_def)
      from assms kd'(1,3) that have "kd' = kd"
        by (metis eq_key_imp_eq_value prod.collapse)
      with kd'(2) ne show False by simp
    qed
  qed
  then show ?thesis
    unfolding deleteDocs_def by (intro filter_cong) auto
qed

text \<open>
  Claim C4. In local mode deleteExpensesByUserId keeps exactly the records of the other
  owners, unchanged and in their order: no record of the owner is left, and the records
  listed for any other owner are the same as before. In cloud mode, on a collection keyed
  by document id, the only write sent is one batch that deletes the documents of that
  owner: every store state that follows holds either the collection as it was or the
  collection without all of the owner's documents, and other collections are not touched.
\<close>

theorem deleteByOwner_exact:
  "(\<not> (useCloud st \<and> db st) \<longrightarrow>
      snd (deleteExpensesByUserId owner docs st) = []
      \<and> expenses (fst (deleteExpensesByUserId owner docs st))
          = filter (\<lambda>e. userId e \<noteq> owner) (expenses st)
      \<and> getExpensesByUser owner (fst (deleteExpensesByUserId owner docs st)) = []
      \<and> (other \<noteq> owner \<longrightarrow>
           getExpensesByUser other (fst (deleteExpensesByUserId owner docs st))
             = getExpensesByUser other st))
   \<and> (useCloud st \<and> db st \<and> distinct (map fst (expensesDocs s)) \<longrightarrow>
      fst (deleteExpensesByUserId owner (expensesDocs s) st) = st
      \<and> filter isWrite (snd (deleteExpensesByUserId owner (expensesDocs s) st))
          = [CommitBatchDelete (map fst (getDocsByUserId owner (expensesDocs s)))]
      \<and> list_all (\<lambda>s'. expensesDocs s' = expensesDocs s
                      \<or> expensesDocs s' = filter (\<lambda>kd. userId (docFields (snd kd)) \<noteq> owner) (expensesDocs s))
           (storeStates (snd (deleteExpensesByUserId owner (expensesDocs s) st)) s)
      \<and> expensesDocs (serveAll (snd (deleteExpensesByUserId owner (expensesDocs s) st)) s)
          = filter (\<lambda>kd. userId (docFields (snd kd)) \<noteq> owner) (expensesDocs s)
      \<and> usersDocs (serveAll (snd (deleteExpensesByUserId owner (expensesDocs s) st)) s) = usersDocs s)"
proof (intro conjI impI)
  assume l: "\<not> (useCloud st \<and> db st)"
  then show "snd (deleteExpensesByUserId owner docs st) = []"
    and "expenses (fst (deleteExpensesByUserId owner docs st)) = filter (\<lambda>e. userId e \<noteq> owner) (expenses st)"
    by (auto simp: deleteExpensesByUserId_def)
  from l show "getExpensesByUser owner (fst (deleteExpensesByUserId owner docs st)) = []"
    by (auto simp: deleteExpensesByUserId_def getExpensesByUser_def)
  assume "other \<noteq> owner"
  with l show "getExpensesByUser other (fst (deleteExpensesByUserId owner docs st)) = getExpensesByUser other st"
    by (auto simp: deleteExpensesByUserId_def getExpensesByUser_def intro: filter_cong)
next
  assume c: "useCloud st \<and> db st \<and> distinct (map fst (expensesDocs s))"
  then have r: "deleteExpensesByUserId owner (expensesDocs s) st
      = (st, [GetExpenseDocsByUserId owner, CommitBatchDelete (map fst (getDocsByUserId owner (expensesDocs s)))])"
    by (simp add: deleteExpensesByUserId_def)
  from c have d: "deleteDocs (map fst (getDocsByUserId owner (expensesDocs s))) (expensesDocs s)
      = filter (\<lambda>kd. userId (docFields (snd kd)) \<noteq> owner) (expensesDocs s)"
    by (simp add: deleteDocs_byUserId)
  show "fst (deleteExpensesByUserId owner (expensesDocs s) st) = st"
    by (simp add: r)
  show "filter isWrite (snd (deleteExpensesByUserId owner (expensesDocs s) st))
          = [CommitBatchDelete (map fst (getDocsByUserId owner (expensesDocs s)))]"
    by (simp add: r)
  show "list_all (\<lambda>s'. expensesDocs s' = expensesDocs s
                      \<or> expensesDocs s' = filter (\<lambda>kd. userId (docFields (snd kd)) \<noteq> owner) (expensesDocs s))
           (storeStates (snd (deleteExpensesByUserId owner (expensesDocs s) st)) s)"
    by (simp add: r d)
  show "expensesDocs (serveAll (snd (deleteExpensesByUserId owner (expensesDocs s) st)) s)
          = filter (\<lambda>kd. userId (docFields (snd kd)) \<noteq> owner) (expensesDocs s)"
    by (simp add: r d)
  show "usersDocs (serveAll (snd (deleteExpensesByUserId owner (expensesDocs s) st)) s) = usersDocs s"
    by (simp add: r)
qed

theorem deleteByOwner_exact_witness:
  "expenses (fst (deleteExpensesByUserId ''u1'' [] (localExpenses [e3, e2, e1]))) = [e3]
   \<and> getExpensesByUser ''u2'' (fst (deleteExpensesByUserId ''u1'' [] (localExpenses [e3, e2, e1]))) = [e3]
   \<and> snd (deleteExpensesByUserId ''u1'' [(''e1'', Plain e1), (''e3'', Plain e3), (''e2'', Plain e2)]
        (cloudExpenses [e3, e2, e1]))
       = [GetExpenseDocsByUserId ''u1'', CommitBatchDelete [''e1'', ''e2'']]
   \<and> expensesDocs (serveAll
        (snd (deleteExpensesByUserId ''u1'' [(''e1'', Plain e1), (''e3'', Plain e3), (''e2'', Plain e2)]
           (cloudExpenses [e3, e2, e1])))
        \<lparr>usersDocs = [], expensesDocs = [(''e1'', Plain e1), (''e3'', Plain e3), (''e2'', Plain e2)]\<rparr>)
       = [(''e3'', Plain e3)]"
  using deleteByOwner_exact [of "localExpenses [e3, e2, e1]" "''u1''" "[]" "''u2''"
      "\<lparr>usersDocs = [], expensesDocs = [(''e1'', Plain e1), (''e3'', Plain e3), (''e2'', Plain e2)]\<rparr>"]
    deleteByOwner_exact [of "cloudExpenses [e3, e2, e1]" "''u1''" "[]" "''u2''"
      "\<lparr>usersDocs = [], expensesDocs = [(''e1'', Plain e1), (''e3'', Plain e3), (''e2'', Plain e2)]\<rparr>"]
  by (simp add: example_defs getExpensesByUser_def deleteExpensesByUserId_def getDocsByUserId_def)

section \<open>Status updates and edits\<close>

lemma spread_updateData_absent:
  "spread e (updateData s None) = e\<lparr>status := s\<rparr>"
  "spread e (updateData s (Some [])) = e\<lparr>status := s\<rparr>"
  by (simp_all add: spread_def updateData_def noPatch_def orElse_def)

lemma spread_updateData_given:
  "n \<noteq> [] \<Longrightarrow> spread e (updateData s (Some n)) = e\<lparr>status := s, notes := n\<rparr>"
  by (simp add: spread_def updateData_def noPatch_def orElse_def)

text \<open>
  Claim C5. In local mode updateStatus with no notes argument, or with the empty string,
  sets the status of every record with that id and changes nothing else of it, its notes
  included; with a non-empty argument it sets the status and replaces the notes. Records
  with another id stay as they are. In cloud mode the collection in memory is left alone
  and one keyed patch is sent: it carries the status alone in the first case, the status
  and the notes in the second, so that merging it into a record has the same effect.
\<close>

theorem updateStatus_notes:
  "(\<not> (useCloud st \<and> db st) \<longrightarrow>
      expenses (fst (updateStatus i s None st))
        = map (\<lambda>e. if eid e = i then e\<lparr>status := s\<rparr> else e) (expenses st)
      \<and> expenses (fst (updateStatus i s (Some []) st))
        = map (\<lambda>e. if eid e = i then e\<lparr>status := s\<rparr> else e) (expenses st)
      \<and> (n \<noteq> [] \<longrightarrow>
           expenses (fst (updateStatus i s (Some n) st))
             = map (\<lambda>e. if eid e = i then e\<lparr>status := s, notes := n\<rparr> else e) (expenses st)))
   \<and> (useCloud st \<and> db st \<longrightarrow>
      updateStatus i s None st = (st, [UpdateExpenseDoc i (updateData s None)])
      \<and> updateStatus i s (Some []) st = (st, [UpdateExpenseDoc i (updateData s (Some []))])
      \<and> updateStatus i s (Some n) st = (st, [UpdateExpenseDoc i (updateData s (Some n))]))
   \<and> spread e (updateData s None) = e\<lparr>status := s\<rparr>
   \<and> spread e (updateData s (Some [])) = e\<lparr>status := s\<rparr>
   \<and> (n \<noteq> [] \<longrightarrow> spread e (updateData s (Some n)) = e\<lparr>status := s, notes := n\<rparr>)"
  by (simp add: updateStatus_def notesOr_def spread_updateData_absent spread_updateData_given)

theorem updateStatus_notes_witness:
  "expenses (fst (updateStatus ''e1'' APPROVED None (localExpenses [e2, e1])))
     = [e2, e1\<lparr>status := APPROVED\<rparr>]
   \<and> notes (e1\<lparr>status := APPROVED\<rparr>) = ''lunch''
   \<and> expenses (fst (updateStatus ''e1'' REJECTED (Some ''missing receipt'') (localExpenses [e2, e1])))
     = [e2, e1\<lparr>status := REJECTED, notes := ''missing receipt''\<rparr>]
   \<and> snd (updateStatus ''e1'' REJECTED (Some ''missing receipt'') (cloudExpenses [e2, e1]))
     = [UpdateExpenseDoc ''e1'' (noPatch\<lparr>p_status := Some REJECTED, p_notes := Some ''missing receipt''\<rparr>)]"
  using updateStatus_notes [of "localExpenses [e2, e1]" "''e1''" APPROVED "''missing receipt''" e1]
    updateStatus_notes [of "localExpenses [e2, e1]" "''e1''" REJECTED "''missing receipt''" e1]
    updateStatus_notes [of "cloudExpenses [e2, e1]" "''e1''" REJECTED "''missing receipt''" e1]
  by (simp add: example_defs updateData_def)






section \<open>The profile change workflow\<close>

lemma find_by_uid:
  "distinct (map uid us) \<Longrightarrow> u \<in> set us \<Longrightarrow> find (\<lambda>v. uid v = uid u) us = Some u"
  by (induction us) force+

lemma only_one_uid:
  "distinct (map uid us) \<Longrightarrow> u \<in> set us \<Longrightarrow> v \<in> set us \<Longrightarrow> uid v = uid u \<Longrightarrow> v = u"
  by (meson distinct_map inj_onD)

lemma mapE_resolveOne:
  assumes "\<forall>v\<in>set us. uid v = uid u \<longrightarrow> v = u" and "pendingUpdates u = Some p"
  shows "mapE (resolveOne (uid u) approve) us
         = Inr (map (\<lambda>v. if v = u then (if approve then approved u p else rejected u) else v) us)"
  using assms by (induction us) (auto simp: resolveOne_def)

lemma resolve_local:
  assumes "distinct (map uid (allUsers st))" "u \<in> set (allUsers st)" "pendingUpdates u = Some p"
    and "\<not> useCloud st"
  shows "resolveProfileUpdate (uid u) approve st
         = Inr (st\<lparr>allUsers := map (\<lambda>v. if v = u then (if approve then approved u p else rejected u) else v)
                                  (allUsers st)\<rparr>, [])"
proof -
  have "\<forall>v\<in>set (allUsers st). uid v = uid u \<longrightarrow> v = u"
    using assms(1,2) by (auto dest: only_one_uid)
  then have "mapE (resolveOne (uid u) approve) (allUsers st)
         = Inr (map (\<lambda>v. if v = u then (if approve then approved u p else rejected u) else v) (allUsers st))"
    using assms(3) by (rule mapE_resolveOne)
  then show ?thesis
    using assms by (simp add: resolveProfileUpdate_def find_by_uid)
qed

lemma resolve_cloud:
  assumes "distinct (map uid (allUsers st))" "u \<in> set (allUsers st)" "pendingUpdates u = Some p"
    and "useCloud st"
  shows "resolveProfileUpdate (uid u) approve st
         = Inr (st, [SetUserDoc (uid u) (if approve then approved u p else rejected u)])"
  using assms by (simp add: resolveProfileUpdate_def find_by_uid)

lemma resolve_nothing_pending:
  assumes "distinct (map uid (allUsers st))" "u \<in> set (allUsers st)" "pendingUpdates u = None"
  shows "resolveProfileUpdate (uid u) approve st = Inr (st, [])"
  using assms by (simp add: resolveProfileUpdate_def find_by_uid)

lemma request_twice:
  "\<not> useCloud st \<Longrightarrow>
   fst (requestProfileUpdate target n2 m2 d2 (fst (requestProfileUpdate target n1 m1 d1 st)))
   = fst (requestProfileUpdate target n2 m2 d2 st)"
  by (simp add: requestProfileUpdate_def Let_def comp_def if_distrib [of uid] cong: if_cong)

lemma serve_pending_twice:
  "serve (UpdateUserPending target q2) (serve (UpdateUserPending target q1) s)
   = serve (UpdateUserPending target q2) s"
  by (simp add: comp_def if_distrib [of fst] cong: if_cong)

text \<open>
  Claim C3. In a collection whose users have distinct ids, for a user with a pending
  update: approving replaces that user by the user with the pending name and email as
  name and email and no pending update, rejecting replaces it by the user with no pending
  update and name and email as they were; in local mode this happens in the collection in
  memory, in cloud mode the replacement is the document put under the user's id. For a
  user with no pending update, resolving changes nothing and sends nothing. A second
  request overwrites the pending update of the first: two requests leave the state (and
  the store) that the second alone leaves.
\<close>

theorem resolve_and_request:
  "(distinct (map uid (allUsers st)) \<and> u \<in> set (allUsers st) \<and> pendingUpdates u = Some p \<longrightarrow>
      (\<not> useCloud st \<longrightarrow>
         resolveProfileUpdate (uid u) True st
           = Inr (st\<lparr>allUsers := map (\<lambda>v. if v = u then approved u p else v) (allUsers st)\<rparr>, [])
         \<and> resolveProfileUpdate (uid u) False st
           = Inr (st\<lparr>allUsers := map (\<lambda>v. if v = u then rejected u else v) (allUsers st)\<rparr>, []))
      \<and> (useCloud st \<longrightarrow>
         resolveProfileUpdate (uid u) True st = Inr (st, [SetUserDoc (uid u) (approved u p)])
         \<and> resolveProfileUpdate (uid u) False st = Inr (st, [SetUserDoc (uid u) (rejected u)])))
   \<and> approved u p = u\<lparr>name := pendingName p, email := pendingEmail p, pendingUpdates := None\<rparr>
   \<and> rejected u = u\<lparr>pendingUpdates := None\<rparr>
   \<and> (distinct (map uid (allUsers st)) \<and> u \<in> set (allUsers st) \<and> pendingUpdates u = None \<longrightarrow>
      resolveProfileUpdate (uid u) approve st = Inr (st, []))
   \<and> (\<not> useCloud st \<longrightarrow>
      fst (requestProfileUpdate target n2 m2 d2 (fst (requestProfileUpdate target n1 m1 d1 st)))
        = fst (requestProfileUpdate target n2 m2 d2 st)
      \<and> allUsers (fst (requestProfileUpdate target n2 m2 d2 st))
        = map (\<lambda>v. if uid v = target
                    then v\<lparr>pendingUpdates := Some \<lparr>pendingName = n2, pendingEmail = m2, pendingDate = d2\<rparr>\<rparr>
                    else v) (allUsers st))
   \<and> (useCloud st \<longrightarrow>
      requestProfileUpdate target n2 m2 d2 st
        = (st, [UpdateUserPending target \<lparr>pendingName = n2, pendingEmail = m2, pendingDate = d2\<rparr>]))
   \<and> serve (UpdateUserPending target q2) (serve (UpdateUserPending target q1) s)
        = serve (UpdateUserPending target q2) s"
proof -
  have "resolveProfileUpdate (uid u) True st
           = Inr (st\<lparr>allUsers := map (\<lambda>v. if v = u then approved u p else v) (allUsers st)\<rparr>, [])"
    and "resolveProfileUpdate (uid u) False st
           = Inr (st\<lparr>allUsers := map (\<lambda>v. if v = u then rejected u else v) (allUsers st)\<rparr>, [])"
    if "distinct (map uid (allUsers st))" "u \<in> set (allUsers st)" "pendingUpdates u = Some p" "\<not> useCloud st"
    using resolve_local [OF that, of True] resolve_local [OF that, of False] by simp_all
  moreover have "resolveProfileUpdate (uid u) True st = Inr (st, [SetUserDoc (uid u) (approved u p)])"
    and "resolveProfileUpdate (uid u) False st = Inr (st, [SetUserDoc (uid u) (rejected u)])"
    if "distinct (map uid (allUsers st))" "u \<in> set (allUsers st)" "pendingUpdates u = Some p" "useCloud st"
    using resolve_cloud [OF that, of True] resolve_cloud [OF that, of False] by simp_all
  moreover have "resolveProfileUpdate (uid u) approve st = Inr (st, [])"
    if "distinct (map uid (allUsers st))" "u \<in> set (allUsers st)" "pendingUpdates u = None"
    using that by (rule resolve_nothing_pending)
  moreover have "allUsers (fst (requestProfileUpdate target n2 m2 d2 st))
        = map (\<lambda>v. if uid v = target
                    then v\<lparr>pendingUpdates := Some \<lparr>pendingName = n2, pendingEmail = m2, pendingDate = d2\<rparr>\<rparr>
                    else v) (allUsers st)"
    and "fst (requestProfileUpdate target n2 m2 d2 (fst (requestProfileUpdate target n1 m1 d1 st)))
        = fst (requestProfileUpdate target n2 m2 d2 st)"
    if "\<not> useCloud st"
    using that request_twice [OF that] by (simp_all add: requestProfileUpdate_def)
  moreover have "requestProfileUpdate target n2 m2 d2 st
        = (st, [UpdateUserPending target \<lparr>pendingName = n2, pendingEmail = m2, pendingDate = d2\<rparr>])"
    if "useCloud st"
    using that by (simp add: requestProfileUpdate_def)
  moreover note serve_pending_twice [of target q2 q1 s]
  ultimately show ?thesis
    by (simp only: approved_def rejected_def) blast
qed

lemmas people_defs =
  alice_def bob_def alicia_def localUsers_def cloudUsers_def T1_def T2_def T3_def

theorem resolve_and_request_witness:
  "resolveProfileUpdate ''u1'' True
      (fst (requestProfileUpdate ''u1'' ''Alicia'' ''alicia@x.com'' T2 (localUsers [alice, bob])))
     = Inr (localUsers [alice\<lparr>name := ''Alicia'', email := ''alicia@x.com''\<rparr>, bob], [])
   \<and> resolveProfileUpdate ''u1'' False
      (fst (requestProfileUpdate ''u1'' ''Alicia'' ''alicia@x.com'' T2 (localUsers [alice, bob])))
     = Inr (localUsers [alice, bob], [])
   \<and> resolveProfileUpdate ''u2'' True
      (fst (requestProfileUpdate ''u1'' ''Alicia'' ''alicia@x.com'' T2 (localUsers [alice, bob])))
     = Inr (localUsers [alice\<lparr>pendingUpdates := Some alicia\<rparr>, bob], [])
   \<and> resolveProfileUpdate ''u1'' True (cloudUsers [alice\<lparr>pendingUpdates := Some alicia\<rparr>, bob])
     = Inr (cloudUsers [alice\<lparr>pendingUpdates := Some alicia\<rparr>, bob],
            [SetUserDoc ''u1'' (alice\<lparr>name := ''Alicia'', email := ''alicia@x.com''\<rparr>)])
   \<and> fst (requestProfileUpdate ''u1'' ''Alicia'' ''alicia@x.com'' T2
        (fst (requestProfileUpdate ''u1'' ''Al'' ''al@x.com'' T1 (localUsers [alice, bob]))))
     = localUsers [alice\<lparr>pendingUpdates := Some alicia\<rparr>, bob]"
  using
    resolve_and_request [where st = "localUsers [alice\<lparr>pendingUpdates := Some alicia\<rparr>, bob]"
      and u = "alice\<lparr>pendingUpdates := Some alicia\<rparr>" and p = alicia]
    resolve_and_request [where st = "localUsers [alice\<lparr>pendingUpdates := Some alicia\<rparr>, bob]"
      and u = bob and approve = True]
    resolve_and_request [where st = "cloudUsers [alice\<lparr>pendingUpdates := Some alicia\<rparr>, bob]"
      and u = "alice\<lparr>pendingUpdates := Some alicia\<rparr>" and p = alicia]
    resolve_and_request [where st = "localUsers [alice, bob]" and target = "''u1''"
      and ?n1.0 = "''Al''" and ?m1.0 = "''al@x.com''" and ?d1.0 = T1
      and ?n2.0 = "''Alicia''" and ?m2.0 = "''alicia@x.com''" and ?d2.0 = T2]
  by (simp add: people_defs requestProfileUpdate_def)

section \<open>Frame of resolveProfileUpdate\<close>

lemma sameButProfile_refl: "sameButProfile target u u"
  by (simp add: sameButProfile_def)

lemma list_all2_sameButProfile_refl: "list_all2 (sameButProfile target) us us"
  by (simp add: list_all2_same sameButProfile_refl)

lemma resolveOne_frame: "resolveOne target approve u = Inr u' \<Longrightarrow> sameButProfile target u u'"
  by (auto simp: resolveOne_def sameButProfile_def approved_def rejected_def split: if_splits option.splits)

lemma mapE_frame:
  "mapE (resolveOne target approve) us = Inr us' \<Longrightarrow> list_all2 (sameButProfile target) us us'"
proof (induction us arbitrary: us')
  case Nil
  then show ?case by simp
next
  case (Cons u us)
  then show ?case
    by (auto split: sum.splits dest: resolveOne_frame)
qed

lemma find_uid: "find (\<lambda>u. uid u = target) us = Some w \<Longrightarrow> w \<in> set us \<and> uid w = target"
  by (auto simp: find_Some_iff)

lemma resolve_returns:
  assumes "distinct (map uid (allUsers st))"
  shows "resolveProfileUpdate target approve st \<noteq> Inl TypeError"
proof (cases "find (\<lambda>u. uid u = target) (allUsers st)")
  case None
  then show ?thesis by (simp add: resolveProfileUpdate_def)
next
  case (Some w)
  then have w: "w \<in> set (allUsers st)" "uid w = target" by (auto dest: find_uid)
  show ?thesis
  proof (cases "pendingUpdates w")
    case None
    with Some show ?thesis by (simp add: resolveProfileUpdate_def)
  next
    case (Some p)
    show ?thesis
    proof (cases "useCloud st")
      case True
      with resolve_cloud [OF assms w(1) Some True, of approve] w(2) show ?thesis by simp
    next
      case False
      with resolve_local [OF assms w(1) Some False, of approve] w(2) show ?thesis by simp
    qed
  qed
qed

lemma resolve_duplicate_id_throws:
  "resolveProfileUpdate ''u1'' True (localUsers [alice\<lparr>pendingUpdates := Some alicia\<rparr>, alice])
   = Inl TypeError"
  by (simp add: people_defs resolveProfileUpdate_def resolveOne_def approved_def)

text \<open>
  Claim C10. Whenever resolveProfileUpdate returns, the users of the new collection are
  the users of the old one, in the same places, each with the id, password, role and
  avatar it had, and each user whose id is not the target entirely as it was; the session
  and the mode are unchanged, and a request, if one is sent, puts under the target id a
  document that differs from a user with that id in name, email and pending update at
  most. It does return when the ids of the collection are distinct. The same frame holds
  for the local-only variant, which always returns.
\<close>

theorem resolve_frame:
  "(resolveProfileUpdate target approve st = Inr (st', reqs) \<longrightarrow>
      list_all2 (sameButProfile target) (allUsers st) (allUsers st')
      \<and> user st' = user st \<and> billboard_user_id st' = billboard_user_id st
      \<and> useCloud st' = useCloud st \<and> db st' = db st
      \<and> list_all (putsProfileOf target (allUsers st)) reqs)
   \<and> (distinct (map uid (allUsers st)) \<longrightarrow> resolveProfileUpdate target approve st \<noteq> Inl TypeError)
   \<and> list_all2 (sameButProfile target) (allUsers st)
        (allUsers (resolveProfileUpdate_localOnly target approve st))
   \<and> user (resolveProfileUpdate_localOnly target approve st) = user st
   \<and> billboard_user_id (resolveProfileUpdate_localOnly target approve st) = billboard_user_id st"
proof (intro conjI impI)
  assume r: "resolveProfileUpdate target approve st = Inr (st', reqs)"
  show "list_all2 (sameButProfile target) (allUsers st) (allUsers st')"
    using r by (auto simp: resolveProfileUpdate_def list_all2_sameButProfile_refl
        split: option.splits if_splits sum.splits dest: mapE_frame)
  show "user st' = user st" "billboard_user_id st' = billboard_user_id st"
    "useCloud st' = useCloud st" "db st' = db st"
    using r by (auto simp: resolveProfileUpdate_def split: option.splits if_splits sum.splits)
  show "list_all (putsProfileOf target (allUsers st)) reqs"
    using r by (auto simp: resolveProfileUpdate_def list_ex_iff sameButProfile_def approved_def rejected_def
        split: option.splits if_splits sum.splits dest!: find_uid)
next
  assume "distinct (map uid (allUsers st))"
  then show "resolveProfileUpdate target approve st \<noteq> Inl TypeError" by (rule resolve_returns)
next
  show "list_all2 (sameButProfile target) (allUsers st)
        (allUsers (resolveProfileUpdate_localOnly target approve st))"
    by (auto simp: resolveProfileUpdate_localOnly_def list_all2_map2 list_all2_same
        sameButProfile_def approved_def rejected_def split: option.splits)
qed (simp_all add: resolveProfileUpdate_localOnly_def)

theorem resolve_frame_witness:
  "resolveProfileUpdate ''u1'' True (localUsers [alice\<lparr>pendingUpdates := Some alicia\<rparr>, bob])
     = Inr (localUsers [alice\<lparr>name := ''Alicia'', email := ''alicia@x.com''\<rparr>, bob], [])
   \<and> list_all2 (sameButProfile ''u1'') [alice\<lparr>pendingUpdates := Some alicia\<rparr>, bob]
        [alice\<lparr>name := ''Alicia'', email := ''alicia@x.com''\<rparr>, bob]
   \<and> resolveProfileUpdate ''u1'' True (localUsers [alice\<lparr>pendingUpdates := Some alicia\<rparr>, bob]) \<noteq> Inl TypeError
   \<and> allUsers (resolveProfileUpdate_localOnly ''u1'' True (localUsers [alice\<lparr>pendingUpdates := Some alicia\<rparr>, bob]))
     = [alice\<lparr>name := ''Alicia'', email := ''alicia@x.com''\<rparr>, bob]"
  using resolve_frame [where st = "localUsers [alice\<lparr>pendingUpdates := Some alicia\<rparr>, bob]"
      and target = "''u1''" and approve = True
      and st' = "localUsers [alice\<lparr>name := ''Alicia'', email := ''alicia@x.com''\<rparr>, bob]" and reqs = "[]"]
  by (simp add: people_defs resolveProfileUpdate_def resolveOne_def approved_def rejected_def
      resolveProfileUpdate_localOnly_def sameButProfile_def)

section \<open>signup\<close>

lemma find_None_list_ex: "find P xs = None \<longleftrightarrow> \<not> list_ex P xs"
  by (auto simp: find_None_iff list_ex_iff)

lemma signup_existing:
  assumes "list_ex (\<lambda>u. toLowerCase (email u) = toLowerCase em) (allUsers st)"
  shows "signup toLowerCase encodeURIComponent now setDocOk nm em pw st
         = (st, [], Some ''User already exists with this email. Please login.'')"
proof -
  from assms obtain w where "find (\<lambda>u. toLowerCase (email u) = toLowerCase em) (allUsers st) = Some w"
    using find_None_list_ex [of "\<lambda>u. toLowerCase (email u) = toLowerCase em" "allUsers st"] by auto
  then show ?thesis by (simp add: signup_def)
qed

text \<open>
  Claim C7. When some user already has the email, compared after lower-casing, signup
  returns the state as it was, sends nothing and shows the alert: it returns normally, the
  collection and the session are untouched. Otherwise it builds one new user with the
  given name, email and password, role SALES, no pending update, the id made from the
  clock and the avatar URL that is a fixed function of the name; in local mode, and in
  cloud mode when the put fails, this user is appended to the collection behind the
  existing users; in cloud mode one keyed put of it under its id is sent; in both modes
  it becomes the session user and its id the stored session id, and no alert is shown.
\<close>

theorem signup_duplicate_or_new:
  "(list_ex (\<lambda>u. toLowerCase (email u) = toLowerCase em) (allUsers st) \<longrightarrow>
      signup toLowerCase encodeURIComponent now setDocOk nm em pw st
        = (st, [], Some ''User already exists with this email. Please login.''))
   \<and> (\<not> list_ex (\<lambda>u. toLowerCase (email u) = toLowerCase em) (allUsers st) \<longrightarrow>
      allUsers (fst (signup toLowerCase encodeURIComponent now setDocOk nm em pw st))
        = (if useCloud st \<and> setDocOk then allUsers st
           else allUsers st @ [newUser encodeURIComponent now nm em pw])
      \<and> fst (snd (signup toLowerCase encodeURIComponent now setDocOk nm em pw st))
        = (if useCloud st
           then [SetUserDoc (uid (newUser encodeURIComponent now nm em pw)) (newUser encodeURIComponent now nm em pw)]
           else [])
      \<and> snd (snd (signup toLowerCase encodeURIComponent now setDocOk nm em pw st)) = None
      \<and> user (fst (signup toLowerCase encodeURIComponent now setDocOk nm em pw st))
        = Some (newUser encodeURIComponent now nm em pw)
      \<and> billboard_user_id (fst (signup toLowerCase encodeURIComponent now setDocOk nm em pw st))
        = Some (uid (newUser encodeURIComponent now nm em pw))
      \<and> useCloud (fst (signup toLowerCase encodeURIComponent now setDocOk nm em pw st)) = useCloud st
      \<and> db (fst (signup toLowerCase encodeURIComponent now setDocOk nm em pw st)) = db st)
   \<and> newUser encodeURIComponent now nm em pw
        = \<lparr>uid = ''u-'' @ decimal now, name = nm, email = em, password = pw, role = SALES,
           avatar = ''https://ui-avatars.com/api/?name='' @ encodeURIComponent nm
                      @ ''&background=random&color=fff&background=2563eb'',
           pendingUpdates = None\<rparr>"
proof (intro conjI impI)
  assume "list_ex (\<lambda>u. toLowerCase (email u) = toLowerCase em) (allUsers st)"
  then show "signup toLowerCase encodeURIComponent now setDocOk nm em pw st
        = (st, [], Some ''User already exists with this email. Please login.'')"
    by (rule signup_existing)
next
  show "newUser encodeURIComponent now nm em pw
        = \<lparr>uid = ''u-'' @ decimal now, name = nm, email = em, password = pw, role = SALES,
           avatar = ''https://ui-avatars.com/api/?name='' @ encodeURIComponent nm
                      @ ''&background=random&color=fff&background=2563eb'',
           pendingUpdates = None\<rparr>"
    by (simp add: newUser_def avatarFor_def)
qed (simp_all add: signup_def Let_def flip: find_None_list_ex)

theorem signup_duplicate_or_new_witness:
  "signup lowerAscii (\<lambda>s. s) 1704189600000 True ''Bob'' ''ALICE@x.com'' ''pw2'' (localUsers [alice])
     = (localUsers [alice], [], Some ''User already exists with this email. Please login.'')
   \<and> allUsers (fst (signup lowerAscii (\<lambda>s. s) 1704103200000 True ''Alice'' ''alice@x.com'' ''pw1''
        (localUsers [])))
     = [\<lparr>uid = ''u-1704103200000'', name = ''Alice'', email = ''alice@x.com'', password = ''pw1'',
         role = SALES,
         avatar = ''https://ui-avatars.com/api/?name=Alice&background=random&color=fff&background=2563eb'',
         pendingUpdates = None\<rparr>]
   \<and> billboard_user_id (fst (signup lowerAscii (\<lambda>s. s) 1704103200000 True ''Alice'' ''alice@x.com'' ''pw1''
        (localUsers []))) = Some ''u-1704103200000''
   \<and> fst (snd (signup lowerAscii (\<lambda>s. s) 1704103200000 True ''Alice'' ''alice@x.com'' ''pw1'' (cloudUsers [])))
     = [SetUserDoc ''u-1704103200000''
         \<lparr>uid = ''u-1704103200000'', name = ''Alice'', email = ''alice@x.com'', password = ''pw1'',
          role = SALES,
          avatar = ''https://ui-avatars.com/api/?name=Alice&background=random&color=fff&background=2563eb'',
          pendingUpdates = None\<rparr>]"
proof -
  have d: "decimal 1704103200000 = ''1704103200000''"
    by (simp add: decimal.simps digit_def)
  have l: "list_ex (\<lambda>u. lowerAscii (email u) = lowerAscii ''ALICE@x.com'') (allUsers (localUsers [alice]))"
    by (simp add: people_defs lowerAscii_def lowerChar_def)
  have n: "\<not> list_ex (\<lambda>u. lowerAscii (email u) = lowerAscii ''alice@x.com'') (allUsers (localUsers []))"
    "\<not> list_ex (\<lambda>u. lowerAscii (email u) = lowerAscii ''alice@x.com'') (allUsers (cloudUsers []))"
    by (simp_all add: people_defs)
  show ?thesis
    using
      signup_duplicate_or_new [where toLowerCase = lowerAscii and encodeURIComponent = "\<lambda>s. s"
        and now = 1704189600000 and setDocOk = True and nm = "''Bob''" and em = "''ALICE@x.com''"
        and pw = "''pw2''" and st = "localUsers [alice]"]
      signup_duplicate_or_new [where toLowerCase = lowerAscii and encodeURIComponent = "\<lambda>s. s"
        and now = 1704103200000 and setDocOk = True and nm = "''Alice''" and em = "''alice@x.com''"
        and pw = "''pw1''" and st = "localUsers []"]
      signup_duplicate_or_new [where toLowerCase = lowerAscii and encodeURIComponent = "\<lambda>s. s"
        and now = 1704103200000 and setDocOk = True and nm = "''Alice''" and em = "''alice@x.com''"
        and pw = "''pw1''" and st = "cloudUsers []"]
    by (simp add: l n d) (simp add: people_defs)
qed

section \<open>Saving when the storage is full\<close>

lemma syncToLocal_failed: "\<not> accepts (expenses st) \<Longrightarrow> syncToLocal accepts st = st"
  by (simp add: syncToLocal_def setItem_def)

lemma saveWithFallback_retry:
  "\<not> accepts (expenses st) \<Longrightarrow> accepts (lightweightExpenses (expenses st)) \<Longrightarrow>
   saveWithFallback accepts st = st\<lparr>track_expense_data := Some (lightweightExpenses (expenses st))\<rparr>"
  by (simp add: saveWithFallback_def setItem_def)

lemma saveWithFallback_expenses: "expenses (saveWithFallback accepts st) = expenses st"
  by (simp add: saveWithFallback_def setItem_def split: sum.splits)

lemma lightweightExpenses_blank:
  "map imageUrl (lightweightExpenses xs) = map (\<lambda>e. []) xs"
  "map (\<lambda>e. e\<lparr>imageUrl := []\<rparr>) (lightweightExpenses xs) = lightweightExpenses xs"
  by (simp_all add: lightweightExpenses_def)

text \<open>
  Claim C1. The storage has room for the snapshot of \<open>e2\<close> and \<open>e1\<close> without the image of
  \<open>e1\<close> but not with it. The save effect of ExpenseContext.tsx, in local mode, leaves the
  entry empty: it does not save again. The save effect of the local-only provider stores
  the records with their images blanked and leaves the collection in memory as it is.
\<close>

theorem syncToLocal_gives_up:
  "\<not> noRoomForImages (expenses (localExpenses [e2, e1]))
   \<and> noRoomForImages (lightweightExpenses (expenses (localExpenses [e2, e1])))
   \<and> track_expense_data (syncToLocal noRoomForImages (localExpenses [e2, e1])) = None
   \<and> track_expense_data (saveWithFallback noRoomForImages (localExpenses [e2, e1]))
       = Some [e2, e1\<lparr>imageUrl := []\<rparr>]
   \<and> expenses (saveWithFallback noRoomForImages (localExpenses [e2, e1])) = [e2, e1]"
  by (simp add: example_defs noRoomForImages_def lightweightExpenses_def syncToLocal_def
      saveWithFallback_def setItem_def)

section \<open>Loading a snapshot that is not an array\<close>

lemma loadFromLocal_expenses_fallback:
  "JSON_parse s = None \<or> (\<exists>v. JSON_parse s = Some v \<and> \<not> isArray v) \<Longrightarrow>
   loadFromLocal_expenses JSON_parse MOCK_EXPENSES (Some s)
   = loadFromLocal_expenses JSON_parse MOCK_EXPENSES None"
  by (auto simp: loadFromLocal_expenses_def)

lemma loadFromLocal_users_invalid:
  "JSON_parse s = None \<Longrightarrow>
   loadFromLocal_users JSON_parse MOCK_USERS (Some s) = loadFromLocal_users JSON_parse MOCK_USERS None"
  by (simp add: loadFromLocal_users_def)

lemma loadFromLocal_users_unchecked:
  "s \<noteq> [] \<Longrightarrow> JSON_parse s = Some v \<Longrightarrow> loadFromLocal_users JSON_parse MOCK_USERS (Some s) = Parsed v"
  by (simp add: loadFromLocal_users_def)

text \<open>
  Claim C8. The stored text \<^verbatim>\<open>{}\<close> is valid JSON and not an array. The loader of the
  expense repository falls back to the seed, as for a missing entry; the loader of the
  user repository hands the parsed object to the state setter instead of the seed.
\<close>

theorem loadFromLocal_users_takes_object:
  "loadFromLocal_users parseKnown MOCK_USERS (Some ''{}'') = Parsed (JObject [])
   \<and> loadFromLocal_users parseKnown MOCK_USERS None = Seed MOCK_USERS
   \<and> loadFromLocal_users parseKnown MOCK_USERS (Some ''{}'') \<noteq> loadFromLocal_users parseKnown MOCK_USERS None
   \<and> loadFromLocal_expenses parseKnown MOCK_EXPENSES (Some ''{}'') = Seed MOCK_EXPENSES
   \<and> loadFromLocal_expenses parseKnown MOCK_EXPENSES None = Seed MOCK_EXPENSES"
  by (simp add: loadFromLocal_users_def loadFromLocal_expenses_def parseKnown_def)

section \<open>The cascade of the admin delete flow\<close>

lemma confirmDelete_local:
  assumes "\<not> useCloud (fst app)" "\<not> (useCloud (snd app) \<and> db (snd app))"
  shows "confirmDelete (Some u) docs app
         = ((fst (deleteUser (uid u) (fst app)),
             (snd app)\<lparr>expenses := filter (\<lambda>e. userId e \<noteq> uid u) (expenses (snd app))\<rparr>), [])"
    and "list_all (\<lambda>e. userId e \<noteq> uid u) (expenses (snd (fst (confirmDelete (Some u) docs app))))"
    and "list_all (\<lambda>v. uid v \<noteq> uid u) (allUsers (fst (fst (confirmDelete (Some u) docs app))))"
  using assms
  by (auto simp: confirmDelete_def deleteExpensesByUserId_def deleteUser_def unawaited_def Let_def
      logout_def list_all_iff split: option.splits)

lemma confirmDelete_cloud_order:
  assumes "useCloud (fst app)" "useCloud (snd app) \<and> db (snd app)"
  shows "confirmDelete (Some u) docs app
         = ((fst (deleteUser (uid u) (fst app)), snd app),
            [GetExpenseDocsByUserId (uid u), DeleteUserDoc (uid u),
             CommitBatchDelete (map fst (getDocsByUserId (uid u) docs))])"
  using assms
  by (simp add: confirmDelete_def deleteExpensesByUserId_def deleteUser_def unawaited_def Let_def)

text \<open>
  Claim C9. Cloud mode, the store holding Alice and her expense \<open>e1\<close>. confirmDelete for
  Alice sends the query of the cascade, then the delete of the user document, and the
  batch of the cascade last. After the second request the store holds no user and still
  holds \<open>e1\<close>, an expense whose owner has no user document; only the third request removes
  it.
\<close>

theorem confirmDelete_cloud_orphan:
  "snd (confirmDelete (Some alice) [(''e1'', Plain e1)] (cloudUsers [alice], cloudExpenses [e1]))
     = [GetExpenseDocsByUserId ''u1'', DeleteUserDoc ''u1'', CommitBatchDelete [''e1'']]
   \<and> storeStates
        (snd (confirmDelete (Some alice) [(''e1'', Plain e1)] (cloudUsers [alice], cloudExpenses [e1])))
        \<lparr>usersDocs = [(''u1'', alice)], expensesDocs = [(''e1'', Plain e1)]\<rparr>
     = [\<lparr>usersDocs = [(''u1'', alice)], expensesDocs = [(''e1'', Plain e1)]\<rparr>,
        \<lparr>usersDocs = [], expensesDocs = [(''e1'', Plain e1)]\<rparr>,
        \<lparr>usersDocs = [], expensesDocs = []\<rparr>]
   \<and> orphans \<lparr>usersDocs = [(''u1'', alice)], expensesDocs = [(''e1'', Plain e1)]\<rparr> = []
   \<and> orphans \<lparr>usersDocs = [], expensesDocs = [(''e1'', Plain e1)]\<rparr> = [(''e1'', Plain e1)]"
  by (simp add: confirmDelete_def deleteExpensesByUserId_def deleteUser_def unawaited_def Let_def
      getDocsByUserId_def deleteDocs_def orphans_def example_defs alice_def cloudUsers_def)

end
